theory Spec2Isabelle
  imports Complex_Main
begin

section \<open>LocationWeatherCard: area label and request lifecycle\<close>

text \<open>
  A shallow embedding of \<^verbatim>\<open>src/LocationWeatherCard.jsx\<close>. JavaScript strings are
  modelled as \<^typ>\<open>string\<close>; a character outside ASCII is written as the bytes of its
  UTF-8 encoding, which is how the source file stores it. Equality and emptiness of
  strings are the same in both readings.
\<close>

subsection \<open>Fixed strings of the source\<close>

definition em_dash :: string where
  \<comment> \<open>the literal U+2014 of lines 11, 93 and 142\<close>
  "em_dash = [CHR 0xE2, CHR 0x80, CHR 0x94]"

definition ellipsis :: string where
  \<comment> \<open>the literal U+2026 of line 142\<close>
  "ellipsis = [CHR 0xE2, CHR 0x80, CHR 0xA6]"

definition deg_C :: string where
  \<comment> \<open>the suffix U+00B0 followed by C of line 142\<close>
  "deg_C = [CHR 0xC2, CHR 0xB0, CHR ''C'']"

definition unknown_area :: string where
  "unknown_area = ''Unknown area''"

subsection \<open>The address object\<close>

text \<open>
  The \<^verbatim>\<open>address\<close> object of a reverse-geocoding response, restricted to the ten
  locality fields that \<^verbatim>\<open>buildShortAreaName\<close> reads. Following the data model, a
  field is a string or absent: \<open>None\<close> is a field whose read gives \<^verbatim>\<open>undefined\<close>.
\<close>

record address =
  neighbourhood :: "string option"
  quarter :: "string option"
  suburb :: "string option"
  city_district :: "string option"
  borough :: "string option"
  town :: "string option"
  village :: "string option"
  city :: "string option"
  county :: "string option"
  state :: "string option"

definition empty_address :: address where
  \<comment> \<open>the object \<^verbatim>\<open>{}\<close>\<close>
  "empty_address = \<lparr>neighbourhood = None, quarter = None, suburb = None,
     city_district = None, borough = None, town = None, village = None, city = None,
     county = None, state = None\<rparr>"

text \<open>
  Truthiness of a value that is a string or \<^verbatim>\<open>undefined\<close>: only a non-empty string
  is truthy. \<^verbatim>\<open>a || b\<close> is \<^verbatim>\<open>a\<close> when \<^verbatim>\<open>a\<close> is truthy and \<^verbatim>\<open>b\<close> otherwise, so
  a chain whose operands are all falsy evaluates to its last operand.
\<close>

fun truthy :: "string option \<Rightarrow> bool" where
  "truthy None = False"
| "truthy (Some s) = (s \<noteq> [])"

definition js_or :: "string option \<Rightarrow> string option \<Rightarrow> string option" where
  "js_or a b = (if truthy a then a else b)"

definition js_or_lit :: "string option \<Rightarrow> string \<Rightarrow> string" where
  \<comment> \<open>\<^verbatim>\<open>a || "lit"\<close> with a string literal on the right: the result is a string\<close>
  "js_or_lit a d = (case a of None \<Rightarrow> d | Some s \<Rightarrow> if s \<noteq> [] then s else d)"

definition js_template :: "string option \<Rightarrow> string" where
  \<comment> \<open>a value substituted into a template literal\<close>
  "js_template a = (case a of None \<Rightarrow> ''undefined'' | Some s \<Rightarrow> s)"

text \<open>The two chains of lines 28 to 45; \<^verbatim>\<open>||\<close> associates to the left.\<close>

definition local_of :: "address \<Rightarrow> string option" where
  "local_of a =
     js_or (js_or (js_or (js_or (js_or (js_or (js_or (js_or (js_or
       (neighbourhood a) (quarter a)) (suburb a)) (city_district a)) (borough a))
       (town a)) (village a)) (city a)) (county a)) (state a)"

definition cityLike_of :: "address \<Rightarrow> string option" where
  "cityLike_of a =
     js_or (js_or (js_or (js_or (city a) (town a)) (village a)) (county a)) (state a)"

text \<open>
  \<^verbatim>\<open>buildShortAreaName(address)\<close>, lines 24 to 50. The argument is \<open>None\<close> when
  \<^verbatim>\<open>address\<close> is \<^verbatim>\<open>null\<close> or \<^verbatim>\<open>undefined\<close> (line 25).
\<close>

definition buildShortAreaName :: "address option \<Rightarrow> string" where
  "buildShortAreaName address =
     (case address of
        None \<Rightarrow> unknown_area
      | Some a \<Rightarrow>
          (let local = local_of a; cityLike = cityLike_of a in
           if truthy local \<and> truthy cityLike \<and> local \<noteq> cityLike
           then js_template local @ '', '' @ js_template cityLike
           else js_or_lit (js_or local cityLike) unknown_area))"

subsection \<open>The resolver as the specification words it\<close>

text \<open>
  The first non-empty value of a list of optional strings, in the order of the list;
  \<open>None\<close> when no value of the list is a non-empty string.
\<close>

fun spec_first_non_empty :: "string option list \<Rightarrow> string option" where
  "spec_first_non_empty [] = None"
| "spec_first_non_empty (None # vs) = spec_first_non_empty vs"
| "spec_first_non_empty (Some s # vs) = (if s \<noteq> [] then Some s else spec_first_non_empty vs)"

definition spec_local_order :: "address \<Rightarrow> string option list" where
  "spec_local_order a = [neighbourhood a, quarter a, suburb a, city_district a, borough a,
     town a, village a, city a, county a, state a]"

definition spec_cityLike_order :: "address \<Rightarrow> string option list" where
  "spec_cityLike_order a = [city a, town a, village a, county a, state a]"

definition non_empty_part :: "string option \<Rightarrow> string option" where
  \<comment> \<open>a falsy value carries no name\<close>
  "non_empty_part v = (if truthy v then v else None)"

definition spec_resolveAreaLabel :: "address \<Rightarrow> string" where
  "spec_resolveAreaLabel a =
     (case (spec_first_non_empty (spec_local_order a),
            spec_first_non_empty (spec_cityLike_order a)) of
        (Some l, Some c) \<Rightarrow> if l \<noteq> c then l @ '', '' @ c else l
      | (Some l, None) \<Rightarrow> l
      | (None, Some c) \<Rightarrow> c
      | (None, None) \<Rightarrow> ''Unknown area'')"

subsection \<open>Numbers and their decimal text\<close>

text \<open>
  A JavaScript number is a finite double, one of the two infinities, or NaN. A finite
  double is given by its exact value, a rational; the model does not restrict which
  rationals occur, and the two zeros are one value (\<^verbatim>\<open>toFixed\<close> prints both alike).
\<close>

datatype jsnum = Finite rat | PosInfinity | NegInfinity | NaN

definition digit_char :: "nat \<Rightarrow> char" where
  "digit_char d = ''0123456789'' ! (d mod 10)"

text \<open>
  The decimal digits of a natural number: what a template literal prints for a
  non-negative integer such as \<^verbatim>\<open>res.status\<close> or \<^verbatim>\<open>err.code\<close>.
\<close>

fun show_nat :: "nat \<Rightarrow> string" where
  "show_nat n = (if n < 10 then [digit_char n] else show_nat (n div 10) @ [digit_char n])"

declare show_nat.simps [simp del]

text \<open>
  \<^verbatim>\<open>Number.prototype.toFixed(1)\<close>, as the language standard defines it. A number that
  is not finite prints as its name. A negative number prints a minus sign and then its
  magnitude. A magnitude of at least \<open>10^21\<close> prints in the exponent notation of the
  standard's number-to-string conversion, which depends on the binary representation
  and is taken as the parameter \<open>numberToString\<close>. Any other magnitude \<open>y\<close> prints the
  integer \<open>n\<close> nearest to \<open>10 * y\<close> (the larger one of two) with a point before its last
  digit.
\<close>

fun toFixed1 :: "(rat \<Rightarrow> string) \<Rightarrow> jsnum \<Rightarrow> string" where
  "toFixed1 numberToString NaN = ''NaN''"
| "toFixed1 numberToString PosInfinity = ''Infinity''"
| "toFixed1 numberToString NegInfinity = ''-Infinity''"
| "toFixed1 numberToString (Finite x) =
     (let s = (if x < 0 then ''-'' else []); y = \<bar>x\<bar> in
      if 10 ^ 21 \<le> y then s @ numberToString y
      else (let n = nat \<lfloor>y * 10 + 1 / 2\<rfloor> in
            s @ show_nat (n div 10) @ ''.'' @ show_nat (n mod 10)))"

subsection \<open>Parsed JSON and the outcome of a fetch\<close>

text \<open>
  A value produced by \<^verbatim>\<open>res.json()\<close>, or \<^verbatim>\<open>undefined\<close> for a property that is not
  there. An object is the list of its own properties.
\<close>

datatype jsval =
    JUndefined
  | JNull
  | JBool bool
  | JNum jsnum
  | JStr string
  | JArr "jsval list"
  | JObj "(string \<times> jsval) list"

text \<open>
  \<^verbatim>\<open>v?.k\<close> for a property name \<open>k\<close> that no prototype and no string or array
  defines, which holds for the two names the source reads this way.
\<close>

fun opt_chain :: "jsval \<Rightarrow> string \<Rightarrow> jsval" where
  "opt_chain (JObj kvs) k = (case map_of kvs k of None \<Rightarrow> JUndefined | Some v \<Rightarrow> v)"
| "opt_chain v k = JUndefined"

fun typeof_number :: "jsval \<Rightarrow> bool" where
  "typeof_number (JNum n) = True"
| "typeof_number v = False"

text \<open>
  The body of a reverse-geocoding response after \<^verbatim>\<open>res.json()\<close>: \<^verbatim>\<open>null\<close>, on which
  the read of \<^verbatim>\<open>data.address\<close> throws a TypeError with a message of the engine, or a
  value whose \<^verbatim>\<open>address\<close> property is an address object, or is \<^verbatim>\<open>null\<close> or missing
  (\<open>None\<close>).
\<close>

datatype geocode_data = GeoNull string | GeoObject "address option"

datatype thrown = Thrown (message: string)

datatype 'a json_outcome = JsonRejected string | Parsed 'a

text \<open>
  What \<^verbatim>\<open>await fetch(url, ...)\<close> comes to: it never settles, it rejects with an error
  of some message, or it gives a response with a status code and a body.
\<close>

datatype 'a fetch_outcome = NeverSettles | FetchRejected string | Response nat "'a json_outcome"

definition res_ok :: "nat \<Rightarrow> bool" where
  \<comment> \<open>\<^verbatim>\<open>res.ok\<close>: the status is in the range 200 to 299\<close>
  "res_ok st = (200 \<le> st \<and> st \<le> 299)"

datatype 'a settled = Pending | Rejected thrown | Fulfilled 'a

definition reverseGeocodeArea :: "geocode_data fetch_outcome \<Rightarrow> string settled" where
  \<comment> \<open>lines 52 to 68, from the outcome of the fetch of line 63 on\<close>
  "reverseGeocodeArea outcome =
     (case outcome of
        NeverSettles \<Rightarrow> Pending
      | FetchRejected m \<Rightarrow> Rejected (Thrown m)
      | Response st body \<Rightarrow>
          if \<not> res_ok st then Rejected (Thrown (''Area lookup failed ('' @ show_nat st @ '')''))
          else (case body of
                  JsonRejected m \<Rightarrow> Rejected (Thrown m)
                | Parsed (GeoNull m) \<Rightarrow> Rejected (Thrown m)
                | Parsed (GeoObject address) \<Rightarrow> Fulfilled (buildShortAreaName address)))"

definition fetchCurrentTempC :: "jsval fetch_outcome \<Rightarrow> jsnum settled" where
  \<comment> \<open>lines 70 to 88, from the outcome of the fetch of line 81 on; the case on \<open>JNum\<close>
      is the \<^verbatim>\<open>typeof\<close> test of line 86\<close>
  "fetchCurrentTempC outcome =
     (case outcome of
        NeverSettles \<Rightarrow> Pending
      | FetchRejected m \<Rightarrow> Rejected (Thrown m)
      | Response st body \<Rightarrow>
          if \<not> res_ok st then Rejected (Thrown (''Weather fetch failed ('' @ show_nat st @ '')''))
          else (case body of
                  JsonRejected m \<Rightarrow> Rejected (Thrown m)
                | Parsed data \<Rightarrow>
                    (let t = opt_chain (opt_chain data ''current'') ''temperature_2m'' in
                     case t of
                       JNum n \<Rightarrow> Fulfilled n
                     | _ \<Rightarrow> Rejected (Thrown ''Weather data missing temperature.''))))"

text \<open>
  \<^verbatim>\<open>Promise.all\<close> of two promises: fulfilled when both are, rejected as soon as one
  rejects, with the reason of the one that rejects first.
\<close>

datatype settle_order = AreaFirst | WeatherFirst

fun promise_all :: "settle_order \<Rightarrow> 'a settled \<Rightarrow> 'b settled \<Rightarrow> ('a \<times> 'b) settled" where
  "promise_all ord (Fulfilled a) (Fulfilled b) = Fulfilled (a, b)"
| "promise_all ord (Rejected e) (Rejected e') =
     (case ord of AreaFirst \<Rightarrow> Rejected e | WeatherFirst \<Rightarrow> Rejected e')"
| "promise_all ord (Rejected e) (Fulfilled b) = Rejected e"
| "promise_all ord (Rejected e) Pending = Rejected e"
| "promise_all ord (Fulfilled a) (Rejected e') = Rejected e'"
| "promise_all ord Pending (Rejected e') = Rejected e'"
| "promise_all ord (Fulfilled a) Pending = Pending"
| "promise_all ord Pending (Fulfilled b) = Pending"
| "promise_all ord Pending Pending = Pending"

subsection \<open>The component state and its transitions\<close>

datatype req_status = Idle | Requesting | Success | Error

record card =
  isSupported :: bool
  status :: req_status
  error :: "string option"
  areaName :: string
  tempC :: "jsnum option"
  updatedAt :: "int option"

definition initial_card :: card where
  \<comment> \<open>the \<^verbatim>\<open>useState\<close> defaults of lines 4 to 13\<close>
  "initial_card = \<lparr>isSupported = True, status = Idle, error = None, areaName = em_dash,
     tempC = None, updatedAt = None\<rparr>"


record position_options =
  enableHighAccuracy :: bool
  timeout :: nat
  maximumAge :: nat

datatype request =
    GetCurrentPosition position_options
  | AreaLookup jsnum jsnum
  | WeatherLookup jsnum jsnum

datatype call_result = Returned "request list" | ThrewTypeError

text \<open>
  \<^verbatim>\<open>getLocationAndWeather()\<close>, lines 90 to 128, up to its return: the five setters and
  the call of \<^verbatim>\<open>getCurrentPosition\<close>. Without a \<^verbatim>\<open>geolocation\<close> property the
  method call is a property read on \<^verbatim>\<open>undefined\<close>, which throws after the setters
  have run. The result lists the requests the call has issued.
\<close>

definition getLocationAndWeather :: "bool \<Rightarrow> card \<Rightarrow> card \<times> call_result" where
  "getLocationAndWeather has_geolocation c =
     (let c' = c\<lparr>status := Requesting, error := None, areaName := em_dash, tempC := None,
                 updatedAt := None\<rparr> in
      if has_geolocation
      then (c', Returned [GetCurrentPosition
              \<lparr>enableHighAccuracy = True, timeout = 12000, maximumAge = 0\<rparr>])
      else (c', ThrewTypeError))"



text \<open>The error callback of lines 118 to 121.\<close>

definition position_error_callback :: "string \<Rightarrow> nat \<Rightarrow> card \<Rightarrow> card" where
  "position_error_callback err_message err_code c =
     c\<lparr>status := Error, error := Some (err_message @ '' (code '' @ show_nat err_code @ '')'')\<rparr>"

text \<open>
  The success callback of lines 98 to 117. It starts both lookups, in this order, before
  it waits for either.
\<close>

definition position_success_requests :: "jsnum \<Rightarrow> jsnum \<Rightarrow> request list" where
  "position_success_requests lat lng = [AreaLookup lat lng, WeatherLookup lat lng]"

text \<open>
  The rest of the success callback, given what the two fetches come to, which lookup
  settles first and the value \<open>now\<close> of \<^verbatim>\<open>Date.now()\<close>. While the join is pending no
  setter runs.
\<close>

definition position_success_callback ::
  "settle_order \<Rightarrow> int \<Rightarrow> geocode_data fetch_outcome \<Rightarrow> jsval fetch_outcome \<Rightarrow> card \<Rightarrow> card" where
  "position_success_callback ord now area_outcome weather_outcome c =
     (case promise_all ord (reverseGeocodeArea area_outcome) (fetchCurrentTempC weather_outcome) of
        Fulfilled (area, temp) \<Rightarrow>
          c\<lparr>areaName := area, tempC := Some temp, updatedAt := Some now, status := Success\<rparr>
      | Rejected e \<Rightarrow>
          c\<lparr>status := Error,
            error := Some (js_or_lit (Some (message e)) ''Failed to load area/weather.'')\<rparr>
      | Pending \<Rightarrow> c)"

text \<open>The derived text of lines 141 and 142; \<^verbatim>\<open>tempC\<close> is a number or \<^verbatim>\<open>null\<close>.\<close>

definition tempText :: "(rat \<Rightarrow> string) \<Rightarrow> jsnum option \<Rightarrow> req_status \<Rightarrow> string" where
  "tempText numberToString temp st =
     (case temp of
        Some t \<Rightarrow> toFixed1 numberToString t @ deg_C
      | None \<Rightarrow> if st = Requesting then ellipsis else em_dash)"

subsection \<open>Reading the texts back\<close>

text \<open>
  What the specification calls a text with exactly one decimal place: an optional minus
  sign, one or more decimal digits, a point and one decimal digit. The display text of
  a temperature is such a text followed by the three bytes of the suffix.
\<close>

definition is_digit :: "char \<Rightarrow> bool" where
  "is_digit c = (c \<in> set ''0123456789'')"

definition one_decimal_unsigned :: "string \<Rightarrow> bool" where
  "one_decimal_unsigned s =
     (takeWhile is_digit s \<noteq> [] \<and>
      (case dropWhile is_digit s of
         [p, d] \<Rightarrow> p = CHR ''.'' \<and> is_digit d
       | _ \<Rightarrow> False))"

definition one_decimal_place :: "string \<Rightarrow> bool" where
  "one_decimal_place s =
     (case s of
        [] \<Rightarrow> False
      | c # r \<Rightarrow> if c = CHR ''-'' then one_decimal_unsigned r else one_decimal_unsigned s)"

definition one_decimal_celsius :: "string \<Rightarrow> bool" where
  "one_decimal_celsius s =
     (3 \<le> length s \<and> drop (length s - 3) s = deg_C \<and>
      one_decimal_place (take (length s - 3) s))"

text \<open>The number that a text of decimal digits denotes.\<close>

definition digit_value :: "char \<Rightarrow> nat" where
  "digit_value c = of_char c - 48"

definition read_nat :: "string \<Rightarrow> nat" where
  "read_nat s = foldl (\<lambda>acc c. 10 * acc + digit_value c) 0 s"

fun is_finite :: "jsnum \<Rightarrow> bool" where
  "is_finite (Finite x) = True"
| "is_finite n = False"

text \<open>
  A value for the parameter of \<open>toFixed1\<close> where the number is not finite or its
  magnitude is below \<open>10^21\<close>: such a number never consults the parameter.
\<close>

definition no_exponent_text :: "rat \<Rightarrow> string" where
  "no_exponent_text y = []"

section \<open>Properties of the area label\<close>

lemma first_non_empty_Cons:
  "spec_first_non_empty (v # vs) = (if truthy v then v else spec_first_non_empty vs)"
  by (cases v) simp_all

text \<open>A left-nested chain of \<^verbatim>\<open>||\<close> picks the first truthy operand.\<close>

lemma foldl_js_or:
  "non_empty_part (foldl js_or v vs) = spec_first_non_empty (v # vs)"
proof (induction vs arbitrary: v)
  case Nil
  show ?case by (cases v) (simp_all add: non_empty_part_def)
next
  case (Cons w ws)
  have step: "non_empty_part (foldl js_or (js_or v w) ws) = spec_first_non_empty (js_or v w # ws)"
    by (rule Cons.IH)
  show ?case
  proof (cases "truthy v")
    case True
    then have "js_or v w = v" by (simp add: js_or_def)
    with step True show ?thesis by (simp add: first_non_empty_Cons)
  next
    case False
    then have "js_or v w = w" by (simp add: js_or_def)
    with step False show ?thesis by (simp add: first_non_empty_Cons)
  qed
qed

lemma local_of_foldl: "local_of a = foldl js_or (neighbourhood a) (tl (spec_local_order a))"
  by (simp add: local_of_def spec_local_order_def)

lemma cityLike_of_foldl: "cityLike_of a = foldl js_or (city a) (tl (spec_cityLike_order a))"
  by (simp add: cityLike_of_def spec_cityLike_order_def)

lemma local_refines:
  "non_empty_part (local_of a) = spec_first_non_empty (spec_local_order a)"
  unfolding local_of_foldl foldl_js_or by (simp add: spec_local_order_def)

lemma cityLike_refines:
  "non_empty_part (cityLike_of a) = spec_first_non_empty (spec_cityLike_order a)"
  unfolding cityLike_of_foldl foldl_js_or by (simp add: spec_cityLike_order_def)

lemma truthy_Some: "truthy v \<Longrightarrow> \<exists>s. v = Some s \<and> s \<noteq> []"
  by (cases v) simp_all

text \<open>
  Claim C3. For every address object, the non-empty value that \<^verbatim>\<open>local\<close> holds is the
  first non-empty value in the order neighbourhood, quarter, suburb, city_district,
  borough, town, village, city, county, state, and the non-empty value that
  \<^verbatim>\<open>cityLike\<close> holds is the first non-empty value in the order city, town, village,
  county, state; neither holds a non-empty value when its list has none. For the
  address with suburb X, town Y and city Z, \<^verbatim>\<open>local\<close> is X and \<^verbatim>\<open>cityLike\<close> is Z.
\<close>

theorem buildShortAreaName_priority_orders:
  "non_empty_part (local_of a) =
     spec_first_non_empty [neighbourhood a, quarter a, suburb a, city_district a, borough a,
       town a, village a, city a, county a, state a]
   \<and> non_empty_part (cityLike_of a) =
     spec_first_non_empty [city a, town a, village a, county a, state a]
   \<and> local_of (empty_address\<lparr>suburb := Some ''X'', town := Some ''Y'', city := Some ''Z''\<rparr>)
       = Some ''X''
   \<and> cityLike_of (empty_address\<lparr>suburb := Some ''X'', town := Some ''Y'', city := Some ''Z''\<rparr>)
       = Some ''Z''"
proof -
  have "non_empty_part (local_of a) = spec_first_non_empty (spec_local_order a)"
    by (rule local_refines)
  moreover have "non_empty_part (cityLike_of a) = spec_first_non_empty (spec_cityLike_order a)"
    by (rule cityLike_refines)
  moreover have "local_of (empty_address\<lparr>suburb := Some ''X'', town := Some ''Y'',
      city := Some ''Z''\<rparr>) = Some ''X''"
    by (simp add: empty_address_def local_of_def js_or_def)
  moreover have "cityLike_of (empty_address\<lparr>suburb := Some ''X'', town := Some ''Y'',
      city := Some ''Z''\<rparr>) = Some ''Z''"
    by (simp add: empty_address_def cityLike_of_def js_or_def)
  ultimately show ?thesis
    by (simp add: spec_local_order_def spec_cityLike_order_def)
qed

text \<open>
  Claim C4. For every address object the label is the one the specification's rule
  gives: the text "local, cityLike" when both are non-empty and differ, the single
  non-empty value when they are equal or only one is non-empty (local first), and the
  sentinel when neither is. The address with city Berlin and state Berlin gives
  "Berlin"; the address with neighbourhood Le Marais and city Paris gives
  "Le Marais, Paris".
\<close>

theorem buildShortAreaName_refines_spec:
  "buildShortAreaName (Some a) = spec_resolveAreaLabel a
   \<and> buildShortAreaName
        (Some (empty_address\<lparr>city := Some ''Berlin'', state := Some ''Berlin''\<rparr>)) = ''Berlin''
   \<and> buildShortAreaName
        (Some (empty_address\<lparr>neighbourhood := Some ''Le Marais'', city := Some ''Paris''\<rparr>))
       = ''Le Marais, Paris''"
proof -
  have "buildShortAreaName (Some a) = spec_resolveAreaLabel a"
    by (auto simp add: buildShortAreaName_def spec_resolveAreaLabel_def
        local_refines [symmetric] cityLike_refines [symmetric] non_empty_part_def Let_def
        js_or_lit_def js_or_def js_template_def unknown_area_def
        split: option.splits dest: truthy_Some)
  moreover have "buildShortAreaName
      (Some (empty_address\<lparr>city := Some ''Berlin'', state := Some ''Berlin''\<rparr>)) = ''Berlin''"
    by (simp add: buildShortAreaName_def empty_address_def local_of_def cityLike_of_def
        js_or_def js_or_lit_def)
  moreover have "buildShortAreaName
      (Some (empty_address\<lparr>neighbourhood := Some ''Le Marais'', city := Some ''Paris''\<rparr>))
      = ''Le Marais, Paris''"
    by (simp add: buildShortAreaName_def empty_address_def local_of_def cityLike_of_def
        js_or_def js_or_lit_def js_template_def)
  ultimately show ?thesis by simp
qed

text \<open>
  Claim C5. For every address object, whatever subset of its locality fields holds a
  string, the label is a non-empty string; for the empty object it is the sentinel
  "Unknown area".
\<close>

theorem buildShortAreaName_non_empty:
  "buildShortAreaName (Some a) \<noteq> []
   \<and> buildShortAreaName (Some empty_address) = ''Unknown area''"
proof -
  have "buildShortAreaName (Some a) \<noteq> []"
    by (auto simp add: buildShortAreaName_def Let_def js_or_lit_def js_or_def js_template_def
        unknown_area_def split: option.splits dest: truthy_Some)
  moreover have "buildShortAreaName (Some empty_address) = ''Unknown area''"
    by (simp add: buildShortAreaName_def empty_address_def local_of_def cityLike_of_def
        js_or_def js_or_lit_def unknown_area_def)
  ultimately show ?thesis by simp
qed

text \<open>
  Claim C10. When the address object is null or missing, the label is the sentinel
  "Unknown area", so a reverse-geocoding response with a 2xx status whose body has no
  address still fulfils the area lookup, with that label.
\<close>

theorem buildShortAreaName_absent_address:
  "buildShortAreaName None = ''Unknown area''
   \<and> (res_ok st \<longrightarrow>
        reverseGeocodeArea (Response st (Parsed (GeoObject None))) = Fulfilled ''Unknown area'')"
  by (simp add: buildShortAreaName_def unknown_area_def reverseGeocodeArea_def)

theorem buildShortAreaName_absent_address_witness:
  "res_ok 200
   \<and> reverseGeocodeArea (Response 200 (Parsed (GeoObject None))) = Fulfilled ''Unknown area''"
  using buildShortAreaName_absent_address [of 200] by (simp add: res_ok_def)

section \<open>Properties of the decimal texts\<close>

lemma below_ten:
  "k < 10 \<Longrightarrow>
   k = 0 \<or> k = 1 \<or> k = 2 \<or> k = 3 \<or> k = 4 \<or> k = 5 \<or> k = 6 \<or> k = 7 \<or> k = 8 \<or> k = (9::nat)"
  by arith

lemma digit_char_is_digit: "is_digit (digit_char d)"
  unfolding is_digit_def digit_char_def by (rule nth_mem) simp

lemma digit_value_digit_char: "digit_value (digit_char d) = d mod 10"
proof -
  have "d mod 10 < 10" by simp
  from below_ten [OF this] show ?thesis
    by (auto simp add: digit_char_def digit_value_def)
qed

lemma show_nat_digits: "list_all is_digit (show_nat n)"
proof (induction n rule: show_nat.induct)
  case (1 n)
  then show ?case
    by (cases "n < 10") (simp_all add: show_nat.simps [of n] digit_char_is_digit)
qed

lemma show_nat_non_empty: "show_nat n \<noteq> []"
  by (simp add: show_nat.simps [of n])

lemma read_nat_snoc: "read_nat (s @ [c]) = 10 * read_nat s + digit_value c"
  by (simp add: read_nat_def)

text \<open>The digits printed for a number denote that number, so they determine it.\<close>

lemma read_show_nat: "read_nat (show_nat n) = n"
proof (induction n rule: show_nat.induct)
  case (1 n)
  show ?case
  proof (cases "n < 10")
    case True
    then show ?thesis
      by (simp add: show_nat.simps [of n] read_nat_def digit_value_digit_char)
  next
    case False
    with 1 have "read_nat (show_nat (n div 10)) = n div 10" by simp
    with False show ?thesis
      by (simp add: show_nat.simps [of n] read_nat_snoc digit_value_digit_char)
  qed
qed

lemma show_nat_inj: "show_nat m = show_nat n \<Longrightarrow> m = n"
  by (metis read_show_nat)

lemma not_digit_point: "\<not> is_digit CHR ''.''"
  by (simp add: is_digit_def)

lemma takeWhile_digits:
  "list_all is_digit ds \<Longrightarrow> \<not> is_digit p \<Longrightarrow> takeWhile is_digit (ds @ p # r) = ds"
  by (induction ds) simp_all

lemma dropWhile_digits:
  "list_all is_digit ds \<Longrightarrow> \<not> is_digit p \<Longrightarrow> dropWhile is_digit (ds @ p # r) = p # r"
  by (induction ds) simp_all

lemma one_decimal_unsigned_digits:
  "one_decimal_unsigned (show_nat a @ ''.'' @ show_nat (b mod 10))"
proof -
  have b: "show_nat (b mod 10) = [digit_char (b mod 10)]"
    by (simp add: show_nat.simps [of "b mod 10"])
  show ?thesis
    by (simp add: one_decimal_unsigned_def b takeWhile_digits dropWhile_digits
        show_nat_digits not_digit_point show_nat_non_empty digit_char_is_digit)
qed

lemma show_nat_not_minus: "\<exists>c r. show_nat a = c # r \<and> c \<noteq> CHR ''-''"
proof -
  obtain c r where cr: "show_nat a = c # r"
    using show_nat_non_empty [of a] by (cases "show_nat a") auto
  have "is_digit c" using show_nat_digits [of a] cr by simp
  then have "c \<noteq> CHR ''-''" by (auto simp add: is_digit_def)
  with cr show ?thesis by blast
qed

lemma toFixed1_one_decimal:
  assumes "\<bar>x\<bar> < 10 ^ 21"
  shows "one_decimal_place (toFixed1 ts (Finite x))"
proof -
  define n where "n = nat \<lfloor>\<bar>x\<bar> * 10 + 1 / 2\<rfloor>"
  obtain c r where cr: "show_nat (n div 10) = c # r" "c \<noteq> CHR ''-''"
    using show_nat_not_minus by blast
  have u: "one_decimal_unsigned (show_nat (n div 10) @ ''.'' @ show_nat (n mod 10))"
    by (rule one_decimal_unsigned_digits)
  show ?thesis
  proof (cases "x < 0")
    case True
    with assms u show ?thesis
      by (simp add: one_decimal_place_def Let_def n_def)
  next
    case False
    with assms u cr show ?thesis
      by (simp add: one_decimal_place_def Let_def n_def)
  qed
qed

lemma one_decimal_celsius_append: "one_decimal_place b \<Longrightarrow> one_decimal_celsius (b @ deg_C)"
  by (simp add: one_decimal_celsius_def deg_C_def)

text \<open>The two printed parts denote the tenth nearest to the magnitude.\<close>

lemma nearest_tenth:
  fixes y :: rat
  assumes "0 \<le> y"
  defines "n \<equiv> nat \<lfloor>y * 10 + 1 / 2\<rfloor>"
  shows "\<bar>(of_nat (n div 10) + of_nat (n mod 10) / 10) - y\<bar> \<le> 1 / 20"
proof -
  have nn: "0 \<le> \<lfloor>y * 10 + 1 / 2\<rfloor>" using assms by simp
  have "(of_nat n :: rat) = of_int \<lfloor>y * 10 + 1 / 2\<rfloor>"
    using nn by (simp add: n_def)
  moreover have "of_int \<lfloor>y * 10 + 1 / 2\<rfloor> \<le> y * 10 + 1 / 2"
    by (rule of_int_floor_le)
  moreover have "y * 10 + 1 / 2 < of_int \<lfloor>y * 10 + 1 / 2\<rfloor> + 1"
    by linarith
  ultimately have b: "of_nat n \<le> y * 10 + 1 / 2" "y * 10 + 1 / 2 < of_nat n + 1"
    by simp_all
  have "(of_nat n :: rat) = of_nat (10 * (n div 10) + n mod 10)" by simp
  also have "\<dots> = 10 * of_nat (n div 10) + of_nat (n mod 10)"
    by (simp only: of_nat_add of_nat_mult of_nat_numeral)
  finally have s: "(of_nat (n div 10) + of_nat (n mod 10) / 10 :: rat) = of_nat n / 10"
    by simp
  have "of_nat n / 10 - y \<le> 1 / 20" "- (1 / 20) \<le> of_nat n / 10 - y"
    using b by simp_all
  then show ?thesis unfolding s by (simp only: abs_le_iff) simp
qed

section \<open>Properties of the request lifecycle\<close>

lemma callback_status_Success:
  "status c \<noteq> Success \<Longrightarrow>
   (status (position_success_callback ord now ao wo c) = Success) =
   (\<exists>a t. reverseGeocodeArea ao = Fulfilled a \<and> fetchCurrentTempC wo = Fulfilled t)"
  by (cases "reverseGeocodeArea ao"; cases "fetchCurrentTempC wo"; cases ord)
     (simp_all add: position_success_callback_def)

lemma callback_Fulfilled:
  "reverseGeocodeArea ao = Fulfilled a \<Longrightarrow> fetchCurrentTempC wo = Fulfilled t \<Longrightarrow>
   position_success_callback ord now ao wo c =
     c\<lparr>areaName := a, tempC := Some t, updatedAt := Some now, status := Success\<rparr>"
  by (simp add: position_success_callback_def)

lemma callback_Rejected:
  "(\<exists>e. reverseGeocodeArea ao = Rejected e) \<or> (\<exists>e. fetchCurrentTempC wo = Rejected e) \<Longrightarrow>
   \<exists>m. position_success_callback ord now ao wo c = c\<lparr>status := Error, error := Some m\<rparr>"
  by (cases "reverseGeocodeArea ao"; cases "fetchCurrentTempC wo"; cases ord)
     (auto simp add: position_success_callback_def)

lemma after_reset:
  "status (fst (getLocationAndWeather g c)) = Requesting"
  "error (fst (getLocationAndWeather g c)) = None"
  "areaName (fst (getLocationAndWeather g c)) = em_dash"
  "tempC (fst (getLocationAndWeather g c)) = None"
  "updatedAt (fst (getLocationAndWeather g c)) = None"
  by (simp_all add: getLocationAndWeather_def Let_def)





text \<open>
  Claim C2. After the position is acquired, from the state that
  \<^verbatim>\<open>getLocationAndWeather\<close> left, the callback ends in Success if and only if both
  the area lookup and the weather lookup are fulfilled, and then the state carries the
  resolved label, the reading and the capture time. If either lookup is rejected it ends
  in Error with a message, and the label, the reading and the time stay cleared.
\<close>

theorem join_success_iff_both:
  "(status (position_success_callback ord now ao wo (fst (getLocationAndWeather True c0)))
      = Success) =
     (\<exists>a t. reverseGeocodeArea ao = Fulfilled a \<and> fetchCurrentTempC wo = Fulfilled t)
   \<and> (\<forall>a t. reverseGeocodeArea ao = Fulfilled a \<and> fetchCurrentTempC wo = Fulfilled t \<longrightarrow>
          status (position_success_callback ord now ao wo (fst (getLocationAndWeather True c0)))
            = Success
        \<and> areaName (position_success_callback ord now ao wo (fst (getLocationAndWeather True c0)))
            = a
        \<and> tempC (position_success_callback ord now ao wo (fst (getLocationAndWeather True c0)))
            = Some t
        \<and> updatedAt (position_success_callback ord now ao wo (fst (getLocationAndWeather True c0)))
            = Some now)
   \<and> ((\<exists>e. reverseGeocodeArea ao = Rejected e) \<or> (\<exists>e. fetchCurrentTempC wo = Rejected e) \<longrightarrow>
          status (position_success_callback ord now ao wo (fst (getLocationAndWeather True c0)))
            = Error
        \<and> error (position_success_callback ord now ao wo (fst (getLocationAndWeather True c0)))
            \<noteq> None
        \<and> areaName (position_success_callback ord now ao wo (fst (getLocationAndWeather True c0)))
            = em_dash
        \<and> tempC (position_success_callback ord now ao wo (fst (getLocationAndWeather True c0)))
            = None
        \<and> updatedAt (position_success_callback ord now ao wo (fst (getLocationAndWeather True c0)))
            = None)"
proof -
  define c1 where "c1 = fst (getLocationAndWeather True c0)"
  have c1: "status c1 = Requesting" "areaName c1 = em_dash" "tempC c1 = None"
    "updatedAt c1 = None"
    by (simp_all add: c1_def after_reset)
  have iff: "(status (position_success_callback ord now ao wo c1) = Success) =
      (\<exists>a t. reverseGeocodeArea ao = Fulfilled a \<and> fetchCurrentTempC wo = Fulfilled t)"
    using c1 by (simp add: callback_status_Success)
  have both: "\<forall>a t. reverseGeocodeArea ao = Fulfilled a \<and> fetchCurrentTempC wo = Fulfilled t \<longrightarrow>
      status (position_success_callback ord now ao wo c1) = Success
      \<and> areaName (position_success_callback ord now ao wo c1) = a
      \<and> tempC (position_success_callback ord now ao wo c1) = Some t
      \<and> updatedAt (position_success_callback ord now ao wo c1) = Some now"
    by (simp add: callback_Fulfilled)
  have either: "(\<exists>e. reverseGeocodeArea ao = Rejected e) \<or> (\<exists>e. fetchCurrentTempC wo = Rejected e) \<longrightarrow>
      status (position_success_callback ord now ao wo c1) = Error
      \<and> error (position_success_callback ord now ao wo c1) \<noteq> None
      \<and> areaName (position_success_callback ord now ao wo c1) = em_dash
      \<and> tempC (position_success_callback ord now ao wo c1) = None
      \<and> updatedAt (position_success_callback ord now ao wo c1) = None"
  proof
    assume "(\<exists>e. reverseGeocodeArea ao = Rejected e) \<or> (\<exists>e. fetchCurrentTempC wo = Rejected e)"
    from callback_Rejected [OF this] obtain m where
      "position_success_callback ord now ao wo c1 = c1\<lparr>status := Error, error := Some m\<rparr>"
      by blast
    with c1 show "status (position_success_callback ord now ao wo c1) = Error
      \<and> error (position_success_callback ord now ao wo c1) \<noteq> None
      \<and> areaName (position_success_callback ord now ao wo c1) = em_dash
      \<and> tempC (position_success_callback ord now ao wo c1) = None
      \<and> updatedAt (position_success_callback ord now ao wo c1) = None"
      by simp
  qed
  from iff both either show ?thesis unfolding c1_def by blast
qed

theorem join_success_iff_both_witness:
  "reverseGeocodeArea (Response 200 (Parsed (GeoObject (Some (empty_address\<lparr>city := Some ''Paris''\<rparr>)))))
     = Fulfilled ''Paris''
   \<and> fetchCurrentTempC (Response 200 (Parsed (JObj [(''current'',
        JObj [(''temperature_2m'', JNum (Finite 21))])]))) = Fulfilled (Finite 21)
   \<and> status (position_success_callback AreaFirst 1700000000000
        (Response 200 (Parsed (GeoObject (Some (empty_address\<lparr>city := Some ''Paris''\<rparr>)))))
        (Response 200 (Parsed (JObj [(''current'', JObj [(''temperature_2m'', JNum (Finite 21))])])))
        (fst (getLocationAndWeather True initial_card))) = Success
   \<and> updatedAt (position_success_callback AreaFirst 1700000000000
        (Response 200 (Parsed (GeoObject (Some (empty_address\<lparr>city := Some ''Paris''\<rparr>)))))
        (Response 200 (Parsed (JObj [(''current'', JObj [(''temperature_2m'', JNum (Finite 21))])])))
        (fst (getLocationAndWeather True initial_card))) = Some 1700000000000
   \<and> reverseGeocodeArea (Response 500 (JsonRejected [])) = Rejected (Thrown ''Area lookup failed (500)'')
   \<and> status (position_success_callback WeatherFirst 1700000000000
        (Response 500 (JsonRejected []))
        (Response 200 (Parsed (JObj [(''current'', JObj [(''temperature_2m'', JNum (Finite 21))])])))
        (fst (getLocationAndWeather True initial_card))) = Error
   \<and> areaName (position_success_callback WeatherFirst 1700000000000
        (Response 500 (JsonRejected []))
        (Response 200 (Parsed (JObj [(''current'', JObj [(''temperature_2m'', JNum (Finite 21))])])))
        (fst (getLocationAndWeather True initial_card))) = em_dash
   \<and> tempC (position_success_callback WeatherFirst 1700000000000
        (Response 500 (JsonRejected []))
        (Response 200 (Parsed (JObj [(''current'', JObj [(''temperature_2m'', JNum (Finite 21))])])))
        (fst (getLocationAndWeather True initial_card))) = None"
proof -
  have a: "reverseGeocodeArea
      (Response 200 (Parsed (GeoObject (Some (empty_address\<lparr>city := Some ''Paris''\<rparr>)))))
      = Fulfilled ''Paris''"
    by (simp add: reverseGeocodeArea_def res_ok_def buildShortAreaName_def empty_address_def
        local_of_def cityLike_of_def js_or_def js_or_lit_def)
  have w: "fetchCurrentTempC (Response 200 (Parsed (JObj [(''current'',
      JObj [(''temperature_2m'', JNum (Finite 21))])]))) = Fulfilled (Finite 21)"
    by (simp add: fetchCurrentTempC_def res_ok_def)
  have f: "reverseGeocodeArea (Response 500 (JsonRejected []))
      = Rejected (Thrown ''Area lookup failed (500)'')"
    by (simp add: reverseGeocodeArea_def res_ok_def show_nat.simps digit_char_def)
  note ok = join_success_iff_both [where ord = AreaFirst and now = 1700000000000
      and ao = "Response 200 (Parsed (GeoObject (Some (empty_address\<lparr>city := Some ''Paris''\<rparr>))))"
      and wo = "Response 200 (Parsed (JObj [(''current'',
        JObj [(''temperature_2m'', JNum (Finite 21))])]))"
      and ?c0.0 = initial_card]
  note ko = join_success_iff_both [where ord = WeatherFirst and now = 1700000000000
      and ao = "Response 500 (JsonRejected [])"
      and wo = "Response 200 (Parsed (JObj [(''current'',
        JObj [(''temperature_2m'', JNum (Finite 21))])]))"
      and ?c0.0 = initial_card]
  from a w f ok ko show ?thesis by blast
qed

text \<open>
  Claim C7. From any prior state, with or without the capability, a call of
  \<^verbatim>\<open>getLocationAndWeather\<close> first sets the status to Requesting and clears the error
  message, the area label (back to the dash it starts with), the temperature and the
  time; where the capability exists it then issues exactly one request, for the current
  position, with high accuracy enabled, a timeout of 12000 ms and a maximum age of zero.
\<close>

theorem getLocationAndWeather_resets_then_requests:
  "fst (getLocationAndWeather g c) =
     c\<lparr>status := Requesting, error := None, areaName := em_dash, tempC := None,
       updatedAt := None\<rparr>
   \<and> status (fst (getLocationAndWeather g c)) = Requesting
   \<and> error (fst (getLocationAndWeather g c)) = None
   \<and> areaName (fst (getLocationAndWeather g c)) = em_dash
   \<and> tempC (fst (getLocationAndWeather g c)) = None
   \<and> updatedAt (fst (getLocationAndWeather g c)) = None
   \<and> snd (getLocationAndWeather True c) =
       Returned [GetCurrentPosition
         \<lparr>enableHighAccuracy = True, timeout = 12000, maximumAge = 0\<rparr>]"
  by (simp add: getLocationAndWeather_def Let_def)

text \<open>
  Claim C6, as stated, fails in its last part: a payload whose temperature field is the
  number Infinity (what a JSON number too large for a double parses to) passes the
  \<^verbatim>\<open>typeof\<close> test, so the lookup is fulfilled and the Success state carries a reading
  that is not finite.
\<close>

theorem fetchCurrentTempC_infinity_counterexample:
  "fetchCurrentTempC (Response 200 (Parsed (JObj [(''current'',
      JObj [(''temperature_2m'', JNum PosInfinity)])]))) = Fulfilled PosInfinity
   \<and> status (position_success_callback AreaFirst 0 (Response 200 (Parsed (GeoObject None)))
        (Response 200 (Parsed (JObj [(''current'',
           JObj [(''temperature_2m'', JNum PosInfinity)])])))
        (fst (getLocationAndWeather True initial_card))) = Success
   \<and> tempC (position_success_callback AreaFirst 0 (Response 200 (Parsed (GeoObject None)))
        (Response 200 (Parsed (JObj [(''current'',
           JObj [(''temperature_2m'', JNum PosInfinity)])])))
        (fst (getLocationAndWeather True initial_card))) = Some PosInfinity
   \<and> \<not> is_finite PosInfinity"
  by (simp add: fetchCurrentTempC_def reverseGeocodeArea_def res_ok_def
      position_success_callback_def)

text \<open>
  Claim C6, amended. When a 2xx weather response has a payload whose
  \<^verbatim>\<open>current.temperature_2m\<close> is missing or is not of type number, the lookup is
  rejected with the message "Weather data missing temperature." and no value stands in
  for it. A fulfilled lookup gives exactly the number found in that field of a 2xx
  response, and the reading carried by a Success state is the value of a fulfilled
  lookup: a value of type number, which the code does not test for finiteness.
\<close>

theorem fetchCurrentTempC_number_or_missing:
  "(res_ok st \<and> \<not> typeof_number (opt_chain (opt_chain data ''current'') ''temperature_2m'') \<longrightarrow>
      fetchCurrentTempC (Response st (Parsed data))
        = Rejected (Thrown ''Weather data missing temperature.''))
   \<and> (fetchCurrentTempC wo = Fulfilled n \<longrightarrow>
        (\<exists>st' data'. wo = Response st' (Parsed data') \<and> res_ok st'
           \<and> opt_chain (opt_chain data' ''current'') ''temperature_2m'' = JNum n))
   \<and> (status (position_success_callback ord now ao wo (fst (getLocationAndWeather True c0)))
         = Success \<longrightarrow>
        (\<exists>t. tempC (position_success_callback ord now ao wo (fst (getLocationAndWeather True c0)))
                = Some t
           \<and> fetchCurrentTempC wo = Fulfilled t))"
proof -
  have missing: "res_ok st \<and>
      \<not> typeof_number (opt_chain (opt_chain data ''current'') ''temperature_2m'') \<longrightarrow>
      fetchCurrentTempC (Response st (Parsed data))
        = Rejected (Thrown ''Weather data missing temperature.'')"
    by (cases "opt_chain (opt_chain data ''current'') ''temperature_2m''")
       (simp_all add: fetchCurrentTempC_def)
  have number: "fetchCurrentTempC wo = Fulfilled n \<longrightarrow>
      (\<exists>st' data'. wo = Response st' (Parsed data') \<and> res_ok st'
         \<and> opt_chain (opt_chain data' ''current'') ''temperature_2m'' = JNum n)"
    by (auto simp add: fetchCurrentTempC_def Let_def
        split: fetch_outcome.splits json_outcome.splits jsval.splits if_splits)
  have carried: "status (position_success_callback ord now ao wo (fst (getLocationAndWeather True c0)))
         = Success \<longrightarrow>
      (\<exists>t. tempC (position_success_callback ord now ao wo (fst (getLocationAndWeather True c0)))
              = Some t
         \<and> fetchCurrentTempC wo = Fulfilled t)"
  proof
    assume "status (position_success_callback ord now ao wo (fst (getLocationAndWeather True c0)))
      = Success"
    then obtain a t where at: "reverseGeocodeArea ao = Fulfilled a"
      "fetchCurrentTempC wo = Fulfilled t"
      by (auto simp add: callback_status_Success after_reset)
    then show "\<exists>t. tempC (position_success_callback ord now ao wo
        (fst (getLocationAndWeather True c0))) = Some t \<and> fetchCurrentTempC wo = Fulfilled t"
      by (simp add: callback_Fulfilled)
  qed
  from missing number carried show ?thesis by blast
qed

theorem fetchCurrentTempC_number_or_missing_witness:
  "res_ok 200
   \<and> \<not> typeof_number (opt_chain (opt_chain (JObj [(''current'', JObj [])]) ''current'')
          ''temperature_2m'')
   \<and> fetchCurrentTempC (Response 200 (Parsed (JObj [(''current'', JObj [])])))
       = Rejected (Thrown ''Weather data missing temperature.'')
   \<and> fetchCurrentTempC (Response 200 (Parsed (JObj [(''current'',
        JObj [(''temperature_2m'', JNum (Finite 21))])]))) = Fulfilled (Finite 21)
   \<and> status (position_success_callback AreaFirst 0 (Response 200 (Parsed (GeoObject None)))
        (Response 200 (Parsed (JObj [(''current'',
           JObj [(''temperature_2m'', JNum (Finite 21))])])))
        (fst (getLocationAndWeather True initial_card))) = Success
   \<and> tempC (position_success_callback AreaFirst 0 (Response 200 (Parsed (GeoObject None)))
        (Response 200 (Parsed (JObj [(''current'',
           JObj [(''temperature_2m'', JNum (Finite 21))])])))
        (fst (getLocationAndWeather True initial_card))) = Some (Finite 21)"
proof -
  have ok: "res_ok 200" by (simp add: res_ok_def)
  have nt: "\<not> typeof_number (opt_chain (opt_chain (JObj [(''current'', JObj [])]) ''current'')
      ''temperature_2m'')"
    by simp
  have w: "fetchCurrentTempC (Response 200 (Parsed (JObj [(''current'',
      JObj [(''temperature_2m'', JNum (Finite 21))])]))) = Fulfilled (Finite 21)"
    by (simp add: fetchCurrentTempC_def res_ok_def)
  have s: "status (position_success_callback AreaFirst 0 (Response 200 (Parsed (GeoObject None)))
      (Response 200 (Parsed (JObj [(''current'',
         JObj [(''temperature_2m'', JNum (Finite 21))])])))
      (fst (getLocationAndWeather True initial_card))) = Success"
    by (simp add: fetchCurrentTempC_def reverseGeocodeArea_def res_ok_def
        position_success_callback_def)
  note m = fetchCurrentTempC_number_or_missing [where st = 200
      and data = "JObj [(''current'', JObj [])]"]
  note c = fetchCurrentTempC_number_or_missing [where ord = AreaFirst and now = 0
      and ao = "Response 200 (Parsed (GeoObject None))"
      and wo = "Response 200 (Parsed (JObj [(''current'',
         JObj [(''temperature_2m'', JNum (Finite 21))])]))"
      and ?c0.0 = initial_card]
  from m ok nt have 1: "fetchCurrentTempC (Response 200 (Parsed (JObj [(''current'', JObj [])])))
       = Rejected (Thrown ''Weather data missing temperature.'')"
    by blast
  from c s w have 2: "tempC (position_success_callback AreaFirst 0
      (Response 200 (Parsed (GeoObject None)))
      (Response 200 (Parsed (JObj [(''current'',
         JObj [(''temperature_2m'', JNum (Finite 21))])])))
      (fst (getLocationAndWeather True initial_card))) = Some (Finite 21)"
    by auto
  from ok nt 1 w s 2 show ?thesis by blast
qed

text \<open>
  Claim C8. A response whose status is not 2xx rejects the area lookup with the message
  "Area lookup failed (status)" and the weather lookup with the message
  "Weather fetch failed (status)", the status in decimal; the two messages never
  coincide, and each determines its status code. When the other lookup is fulfilled, that
  message is the one the Error state carries. A failure to acquire the position puts the
  state in Error with the provider's message followed by " (code n)", n its error code.
\<close>

theorem failures_have_distinct_messages:
  "(\<not> res_ok st \<longrightarrow>
      reverseGeocodeArea (Response st gbody)
        = Rejected (Thrown (''Area lookup failed ('' @ show_nat st @ '')'')))
   \<and> (\<not> res_ok st \<longrightarrow>
      fetchCurrentTempC (Response st wbody)
        = Rejected (Thrown (''Weather fetch failed ('' @ show_nat st @ '')'')))
   \<and> ''Area lookup failed ('' @ show_nat st @ '')'' \<noteq> ''Weather fetch failed ('' @ show_nat st' @ '')''
   \<and> (''Area lookup failed ('' @ show_nat st @ '')'' = ''Area lookup failed ('' @ show_nat st' @ '')''
        \<longrightarrow> st = st')
   \<and> (''Weather fetch failed ('' @ show_nat st @ '')'' = ''Weather fetch failed ('' @ show_nat st' @ '')''
        \<longrightarrow> st = st')
   \<and> (\<not> res_ok st \<and> fetchCurrentTempC wo = Fulfilled t \<longrightarrow>
        position_success_callback ord now (Response st gbody) wo c
          = c\<lparr>status := Error, error := Some (''Area lookup failed ('' @ show_nat st @ '')'')\<rparr>)
   \<and> (\<not> res_ok st \<and> reverseGeocodeArea ao = Fulfilled a \<longrightarrow>
        position_success_callback ord now ao (Response st wbody) c
          = c\<lparr>status := Error, error := Some (''Weather fetch failed ('' @ show_nat st @ '')'')\<rparr>)
   \<and> position_error_callback err_message err_code c
       = c\<lparr>status := Error, error := Some (err_message @ '' (code '' @ show_nat err_code @ '')'')\<rparr>"
proof -
  have area: "\<not> res_ok st \<longrightarrow> reverseGeocodeArea (Response st gbody)
      = Rejected (Thrown (''Area lookup failed ('' @ show_nat st @ '')''))"
    by (simp add: reverseGeocodeArea_def)
  have weather: "\<not> res_ok st \<longrightarrow> fetchCurrentTempC (Response st wbody)
      = Rejected (Thrown (''Weather fetch failed ('' @ show_nat st @ '')''))"
    by (simp add: fetchCurrentTempC_def)
  have differ: "''Area lookup failed ('' @ show_nat st @ '')''
      \<noteq> ''Weather fetch failed ('' @ show_nat st' @ '')''"
    by simp
  have area_code: "''Area lookup failed ('' @ show_nat st @ '')''
      = ''Area lookup failed ('' @ show_nat st' @ '')'' \<longrightarrow> st = st'"
    by (auto dest: show_nat_inj)
  have weather_code: "''Weather fetch failed ('' @ show_nat st @ '')''
      = ''Weather fetch failed ('' @ show_nat st' @ '')'' \<longrightarrow> st = st'"
    by (auto dest: show_nat_inj)
  have area_state: "\<not> res_ok st \<and> fetchCurrentTempC wo = Fulfilled t \<longrightarrow>
      position_success_callback ord now (Response st gbody) wo c
        = c\<lparr>status := Error, error := Some (''Area lookup failed ('' @ show_nat st @ '')'')\<rparr>"
    using area by (simp add: position_success_callback_def js_or_lit_def)
  have weather_state: "\<not> res_ok st \<and> reverseGeocodeArea ao = Fulfilled a \<longrightarrow>
      position_success_callback ord now ao (Response st wbody) c
        = c\<lparr>status := Error, error := Some (''Weather fetch failed ('' @ show_nat st @ '')'')\<rparr>"
    using weather by (simp add: position_success_callback_def js_or_lit_def)
  have position: "position_error_callback err_message err_code c
      = c\<lparr>status := Error, error := Some (err_message @ '' (code '' @ show_nat err_code @ '')'')\<rparr>"
    by (simp add: position_error_callback_def)
  from area weather differ area_code weather_code area_state weather_state position
  show ?thesis by blast
qed

theorem failures_have_distinct_messages_witness:
  "\<not> res_ok 500
   \<and> reverseGeocodeArea (Response 500 (JsonRejected []))
       = Rejected (Thrown ''Area lookup failed (500)'')
   \<and> fetchCurrentTempC (Response 500 (JsonRejected []))
       = Rejected (Thrown ''Weather fetch failed (500)'')
   \<and> fetchCurrentTempC (Response 200 (Parsed (JObj [(''current'',
        JObj [(''temperature_2m'', JNum (Finite 21))])]))) = Fulfilled (Finite 21)
   \<and> error (position_success_callback AreaFirst 0 (Response 500 (JsonRejected []))
        (Response 200 (Parsed (JObj [(''current'',
           JObj [(''temperature_2m'', JNum (Finite 21))])])))
        initial_card) = Some ''Area lookup failed (500)''
   \<and> reverseGeocodeArea (Response 200 (Parsed (GeoObject None))) = Fulfilled ''Unknown area''
   \<and> error (position_success_callback AreaFirst 0 (Response 200 (Parsed (GeoObject None)))
        (Response 500 (JsonRejected [])) initial_card) = Some ''Weather fetch failed (500)''
   \<and> error (position_error_callback ''User denied Geolocation'' 1 initial_card)
       = Some ''User denied Geolocation (code 1)''"
proof -
  have no: "\<not> res_ok 500" by (simp add: res_ok_def)
  have d: "show_nat 500 = ''500''" "show_nat 1 = ''1''"
    by (simp_all add: show_nat.simps digit_char_def)
  have w: "fetchCurrentTempC (Response 200 (Parsed (JObj [(''current'',
      JObj [(''temperature_2m'', JNum (Finite 21))])]))) = Fulfilled (Finite 21)"
    by (simp add: fetchCurrentTempC_def res_ok_def)
  have a: "reverseGeocodeArea (Response 200 (Parsed (GeoObject None))) = Fulfilled ''Unknown area''"
    by (simp add: reverseGeocodeArea_def res_ok_def buildShortAreaName_def unknown_area_def)
  note t = failures_have_distinct_messages [where st = 500 and st' = 500
      and gbody = "JsonRejected []" and wbody = "JsonRejected []"
      and wo = "Response 200 (Parsed (JObj [(''current'',
         JObj [(''temperature_2m'', JNum (Finite 21))])]))" and t = "Finite 21"
      and ao = "Response 200 (Parsed (GeoObject None))" and a = "''Unknown area''"
      and ord = AreaFirst and now = 0 and c = initial_card
      and err_message = "''User denied Geolocation''" and err_code = 1]
  from t no d w a show ?thesis by simp
qed

section \<open>Properties of the temperature text\<close>

text \<open>
  Claim C9, as stated, fails: a stored temperature that is the number Infinity is
  numeric, and its display text is "Infinity" followed by the suffix, which is not a
  text with one decimal place.
\<close>

theorem tempText_infinity_counterexample:
  "tempText no_exponent_text (Some PosInfinity) Success = ''Infinity'' @ deg_C
   \<and> \<not> one_decimal_celsius (tempText no_exponent_text (Some PosInfinity) Success)"
  by (simp add: tempText_def deg_C_def one_decimal_celsius_def one_decimal_place_def
      one_decimal_unsigned_def is_digit_def)

text \<open>
  Claim C9, amended. Whenever the stored temperature is numeric, the display text is
  what \<^verbatim>\<open>toFixed(1)\<close> prints for it followed by the suffix; for a finite temperature of
  magnitude below \<open>10^21\<close> that is a text with exactly one decimal place, whose digits
  denote the tenth nearest to the magnitude. Otherwise the text is the ellipsis when the
  status is Requesting and the dash in every other status.
\<close>

theorem tempText_cases:
  "tempText ts (Some t) st = toFixed1 ts t @ deg_C
   \<and> (\<bar>x\<bar> < 10 ^ 21 \<longrightarrow>
        one_decimal_celsius (tempText ts (Some (Finite x)) st)
      \<and> (\<exists>a b. toFixed1 ts (Finite x)
                  = (if x < 0 then ''-'' else []) @ show_nat a @ ''.'' @ show_nat b
             \<and> b < 10 \<and> \<bar>(of_nat a + of_nat b / 10) - \<bar>x\<bar>\<bar> \<le> 1 / 20))
   \<and> tempText ts None Requesting = ellipsis
   \<and> (st \<noteq> Requesting \<longrightarrow> tempText ts None st = em_dash)"
proof -
  have "\<bar>x\<bar> < 10 ^ 21 \<longrightarrow>
        one_decimal_celsius (tempText ts (Some (Finite x)) st)
      \<and> (\<exists>a b. toFixed1 ts (Finite x)
                  = (if x < 0 then ''-'' else []) @ show_nat a @ ''.'' @ show_nat b
             \<and> b < 10 \<and> \<bar>(of_nat a + of_nat b / 10) - \<bar>x\<bar>\<bar> \<le> 1 / 20)"
  proof
    assume small: "\<bar>x\<bar> < 10 ^ 21"
    define n where "n = nat \<lfloor>\<bar>x\<bar> * 10 + 1 / 2\<rfloor>"
    have 1: "one_decimal_celsius (tempText ts (Some (Finite x)) st)"
      using toFixed1_one_decimal [OF small] by (simp add: tempText_def one_decimal_celsius_append)
    have 2: "toFixed1 ts (Finite x) =
        (if x < 0 then ''-'' else []) @ show_nat (n div 10) @ ''.'' @ show_nat (n mod 10)"
      using small by (simp add: Let_def n_def)
    have 3: "\<bar>(of_nat (n div 10) + of_nat (n mod 10) / 10) - \<bar>x\<bar>\<bar> \<le> 1 / 20"
      unfolding n_def by (rule nearest_tenth) simp
    have 4: "n mod 10 < 10" by simp
    from 1 2 3 4 show "one_decimal_celsius (tempText ts (Some (Finite x)) st)
      \<and> (\<exists>a b. toFixed1 ts (Finite x)
                  = (if x < 0 then ''-'' else []) @ show_nat a @ ''.'' @ show_nat b
             \<and> b < 10 \<and> \<bar>(of_nat a + of_nat b / 10) - \<bar>x\<bar>\<bar> \<le> 1 / 20)"
      by blast
  qed
  then show ?thesis by (simp add: tempText_def)
qed

theorem tempText_cases_witness:
  "\<bar>43 / 2 :: rat\<bar> < 10 ^ 21
   \<and> tempText no_exponent_text (Some (Finite (43 / 2))) Success = ''21.5'' @ deg_C
   \<and> one_decimal_celsius (tempText no_exponent_text (Some (Finite (43 / 2))) Success)
   \<and> Idle \<noteq> Requesting
   \<and> tempText no_exponent_text None Idle = em_dash"
proof -
  have small: "\<bar>43 / 2 :: rat\<bar> < 10 ^ 21" by simp
  have idle: "Idle \<noteq> Requesting" by simp
  have v: "toFixed1 no_exponent_text (Finite (43 / 2)) = ''21.5''"
    by code_simp
  note a = tempText_cases [where ts = no_exponent_text and t = "Finite (43 / 2)"
      and st = Success and x = "43 / 2"]
  note b = tempText_cases [where ts = no_exponent_text and st = Idle and x = 0]
  from a v have 1: "tempText no_exponent_text (Some (Finite (43 / 2))) Success = ''21.5'' @ deg_C"
    by simp
  from a small have 2: "one_decimal_celsius (tempText no_exponent_text (Some (Finite (43 / 2))) Success)"
    by blast
  from b idle have 3: "tempText no_exponent_text None Idle = em_dash"
    by blast
  from small 1 2 idle 3 show ?thesis by blast
qed

end
